theory Spec2Isabelle
  imports Main "HOL-Library.Word"
begin

unbundle bit_operations_syntax

section \<open>Shallow embedding of \<open>VideoClient/video/ffmpegdecoder.cpp\<close>\<close>

subsection \<open>Machine types and constants\<close>

type_synonym int64_t = "64 word"
type_synonym uint = "32 word"
type_synonym byte = "8 word"
type_synonym ptr = nat

text \<open>A null pointer is address 0.\<close>

definition nullptr :: ptr where
  "nullptr = 0"

text \<open>\<open>AV_NOPTS_VALUE\<close> is \<open>INT64_C(0x8000000000000000)\<close>, the smallest 64-bit integer.\<close>

definition AV_NOPTS_VALUE :: int64_t where
  "AV_NOPTS_VALUE = 0x8000000000000000"

datatype AVPixelFormat =
    AV_PIX_FMT_NONE
  | AV_PIX_FMT_YUV420P
  | AV_PIX_FMT_YUYV422
  | AV_PIX_FMT_RGB24
  | AV_PIX_FMT_DXVA2_VLD

record AVRational =
  num :: int
  den :: int

subsection \<open>Frames and the frame queue\<close>

text \<open>\<open>AVFrame\<close>: the fields the decoder reads.\<close>

record AVFrame =
  format :: AVPixelFormat
  sample_aspect_ratio :: AVRational

record VideoFrame =
  m_image :: AVFrame
  pBGR :: ptr
  m_nImageWidth :: int
  m_nImageHeight :: int

text \<open>
  Modelled from the spec: the frame queue class is declared in a header that is not
  part of the source file. The spec describes it as a FIFO of decoded frames awaiting
  presentation whose front frame is exposed and popped. It is a list, oldest frame
  first: \<open>canPop\<close> holds when a frame is queued, \<open>front\<close> is the oldest frame and
  \<open>popFront\<close> removes it. \<open>front\<close> of an empty queue has no frame to return.
\<close>

type_synonym VideoFramesQueue = "VideoFrame list"

definition canPop :: "VideoFramesQueue \<Rightarrow> bool" where
  "canPop q = (q \<noteq> [])"

definition front :: "VideoFramesQueue \<Rightarrow> VideoFrame option" where
  "front q = (case q of [] \<Rightarrow> None | f # _ \<Rightarrow> Some f)"

definition popFront :: "VideoFramesQueue \<Rightarrow> VideoFramesQueue" where
  "popFront q = (case q of [] \<Rightarrow> [] | _ # rest \<Rightarrow> rest)"

datatype fault = FrontOfEmptyQueue | NullDereference

subsection \<open>The C library's file, as the I/O adapter uses it\<close>

text \<open>
  A file opened for reading: its bytes and the current position. Offsets are
  \<open>int64_t\<close>, so the size and the position of a file never exceed \<open>INT64_MAX\<close>
  (\<open>wf_FILE\<close>). \<open>_fseeki64\<close> returns 0 and moves the position, or returns -1 and
  leaves it, when \<open>whence\<close> is not one of the three origins or the target is negative
  or does not fit \<open>int64_t\<close>. A position past the end is legal. \<open>_ftelli64\<close> is
  the position. \<open>fread\<close> with element size 1 delivers the bytes from the position on,
  at most \<open>count\<close> of them, and advances the position.
\<close>

type_synonym c_int = "32 word"

record FILE =
  content :: "byte list"
  fpos :: nat

definition INT64_MAX :: int where
  "INT64_MAX = 2 ^ 63 - 1"

definition wf_FILE :: "FILE \<Rightarrow> bool" where
  "wf_FILE f = (int (length (content f)) \<le> INT64_MAX \<and> int (fpos f) \<le> INT64_MAX)"

definition SEEK_SET :: c_int where "SEEK_SET = 0"
definition SEEK_CUR :: c_int where "SEEK_CUR = 1"
definition SEEK_END :: c_int where "SEEK_END = 2"

definition fseeki64 :: "FILE \<Rightarrow> int64_t \<Rightarrow> c_int \<Rightarrow> c_int \<times> FILE" where
  "fseeki64 f offset whence =
     (let base = (if whence = SEEK_SET then Some 0
                  else if whence = SEEK_CUR then Some (int (fpos f))
                  else if whence = SEEK_END then Some (int (length (content f)))
                  else None)
      in case base of
           None \<Rightarrow> (-1, f)
         | Some b \<Rightarrow>
             if b + sint offset < 0 \<or> INT64_MAX < b + sint offset then (-1, f)
             else (0, f\<lparr>fpos := nat (b + sint offset)\<rparr>))"

definition ftelli64 :: "FILE \<Rightarrow> int64_t" where
  "ftelli64 f = word_of_nat (fpos f)"

definition fread :: "FILE \<Rightarrow> nat \<Rightarrow> byte list \<times> FILE" where
  "fread f count =
     (let bytes = take count (drop (fpos f) (content f))
      in (bytes, f\<lparr>fpos := fpos f + length bytes\<rparr>))"

text \<open>Writing \<open>bytes\<close> at the start of a destination buffer.\<close>

definition store_bytes :: "byte list \<Rightarrow> byte list \<Rightarrow> byte list" where
  "store_bytes bytes buf = bytes @ drop (length bytes) buf"

text \<open>
  The conversion of an \<open>int\<close> argument to \<open>size_t\<close> (64 bits, by sign extension)
  and the cast \<open>(int)len\<close> of a \<open>size_t\<close> back to \<open>int\<close> (the low 32 bits).
\<close>

definition size_t_of_int :: "c_int \<Rightarrow> nat" where
  "size_t_of_int i = unat (scast i :: 64 word)"

definition int_of_size_t :: "nat \<Rightarrow> c_int" where
  "int_of_size_t n = word_of_nat n"

subsection \<open>\<open>FFmpegDecoder::IOContext\<close>\<close>

text \<open>\<open>AVERROR_EOF\<close> is \<open>-MKTAG('E','O','F',' ')\<close>; \<open>AVSEEK_SIZE\<close> is \<open>0x10000\<close>.\<close>

definition AVERROR_EOF :: c_int where
  "AVERROR_EOF = - (0x45 + 0x4F * 2 ^ 8 + 0x46 * 2 ^ 16 + 0x20 * 2 ^ 24)"

definition AVSEEK_SIZE :: c_int where
  "AVSEEK_SIZE = 0x10000"

definition AVFMT_FLAG_CUSTOM_IO :: "32 word" where
  "AVFMT_FLAG_CUSTOM_IO = 0x0080"

record AVIOContext =
  io_buffer_size :: c_int
  write_flag :: c_int

record IOContext =
  ioCtx :: AVIOContext
  buffer :: "byte list"
  bufferSize :: c_int
  fh :: "FILE option"

definition valid :: "IOContext \<Rightarrow> bool" where
  "valid hctx = (fh hctx \<noteq> None)"

text \<open>
  \<open>IOReadFunc\<close> returns its result, the destination buffer and the adapter.
  A null \<open>fh\<close> would be dereferenced by \<open>fread\<close>.
\<close>

definition IOReadFunc ::
  "IOContext \<Rightarrow> byte list \<Rightarrow> c_int \<Rightarrow> fault + (c_int \<times> byte list \<times> IOContext)" where
  "IOReadFunc hctx buf buf_size =
     (case fh hctx of
        None \<Rightarrow> Inl NullDereference
      | Some f \<Rightarrow>
          (let (bytes, f') = fread f (size_t_of_int buf_size);
               len = length bytes;
               hctx' = hctx\<lparr>fh := Some f'\<rparr>
           in if len = 0 then Inr (AVERROR_EOF, store_bytes bytes buf, hctx')
              else Inr (int_of_size_t len, store_bytes bytes buf, hctx')))"

definition IOSeekFunc ::
  "IOContext \<Rightarrow> int64_t \<Rightarrow> c_int \<Rightarrow> fault + (int64_t \<times> IOContext)" where
  "IOSeekFunc hctx pos whence =
     (case fh hctx of
        None \<Rightarrow> Inl NullDereference
      | Some f \<Rightarrow>
          if whence = AVSEEK_SIZE then
            (let current = ftelli64 f;
                 (rs, f1) = fseeki64 f 0 SEEK_END
             in if rs \<noteq> 0 then Inr (-1, hctx\<lparr>fh := Some f1\<rparr>)
                else
                  (let result = ftelli64 f1;
                       (rs2, f2) = fseeki64 f1 current SEEK_SET
                   in Inr (result, hctx\<lparr>fh := Some f2\<rparr>)))
          else
            (let (rs, f1) = fseeki64 f pos whence
             in if rs \<noteq> 0 then Inr (-1, hctx\<lparr>fh := Some f1\<rparr>)
                else Inr (ftelli64 f1, hctx\<lparr>fh := Some f1\<rparr>)))"

text \<open>
  The constructor. The block \<open>av_malloc\<close> returns is not initialised: its bytes are
  an argument, as is what \<open>_fsopen\<close> returns for the path.
\<close>

definition IOContext_new :: "byte list \<Rightarrow> FILE option \<Rightarrow> IOContext" where
  "IOContext_new malloced fsopened =
     (let bufferSize = 1024 * 64
      in \<lparr>ioCtx = \<lparr>io_buffer_size = bufferSize, write_flag = 0\<rparr>,
          buffer = malloced,
          bufferSize = bufferSize,
          fh = fsopened\<rparr>)"

subsection \<open>Demuxer and codec library types\<close>

datatype AVInputFormat = InputFormat string
datatype AVMediaType = AVMEDIA_TYPE_VIDEO | AVMEDIA_TYPE_AUDIO | AVMEDIA_TYPE_OTHER
datatype AVCodec = Codec int

record AVCodecParameters =
  par_codec_id :: int
  par_width :: int
  par_height :: int

record AVStream =
  codec_type :: AVMediaType
  stream_start_time :: int64_t
  stream_duration :: int64_t
  time_base :: AVRational
  codecpar :: AVCodecParameters

record AVFormatContext =
  pb :: "AVIOContext option"
  flags :: "32 word"
  iformat :: "AVInputFormat option"
  streams :: "AVStream list"
  start_time :: int64_t
  duration :: int64_t

text \<open>
  \<open>initAVFormatContext\<close>; \<open>av_probe_input_format\<close> is the library's, an argument
  here. It is handed the buffer with \<open>buf_size = bufferSize - 1\<close>.
\<close>

definition initAVFormatContext ::
  "(byte list \<Rightarrow> AVInputFormat option) \<Rightarrow> IOContext \<Rightarrow> AVFormatContext
     \<Rightarrow> fault + (AVFormatContext \<times> IOContext)" where
  "initAVFormatContext av_probe_input_format io pCtx0 =
     (let pCtx = pCtx0\<lparr>pb := Some (ioCtx io), flags := flags pCtx0 OR AVFMT_FLAG_CUSTOM_IO\<rparr>
      in case fh io of
           None \<Rightarrow> Inl NullDereference
         | Some f \<Rightarrow>
             (let (bytes, f1) = fread f (size_t_of_int (bufferSize io));
                  len = length bytes;
                  io1 = io\<lparr>buffer := store_bytes bytes (buffer io), fh := Some f1\<rparr>
              in if len = 0 then Inr (pCtx, io1)
                 else
                   (let (rs, f2) = fseeki64 f1 0 SEEK_SET;
                        io2 = io1\<lparr>fh := Some f2\<rparr>;
                        probeData = take (nat (sint (bufferSize io2 - 1))) (buffer io2)
                    in Inr (pCtx\<lparr>iformat := av_probe_input_format probeData\<rparr>, io2))))"

text \<open>
  The codec context and the per-stream negotiation record \<open>InputStream\<close> that
  \<open>opaque\<close> points to. A function pointer is the name of the function it holds.
\<close>

datatype HWAccelID = HWACCEL_NONE | HWACCEL_AUTO | HWACCEL_DXVA2

datatype fn = fn_null | fn_default | fn_GetHwFormat | fn_hwaccel nat

record InputStream =
  hwaccel_id :: HWAccelID
  hwaccel_device :: string
  dec :: "AVCodec option"
  hwaccel_get_buffer :: fn
  active_hwaccel_id :: HWAccelID
  hwaccel_pix_fmt :: AVPixelFormat

definition InputStream_new :: InputStream where
  "InputStream_new =
     \<lparr>hwaccel_id = HWACCEL_NONE, hwaccel_device = [], dec = None,
      hwaccel_get_buffer = fn_null, active_hwaccel_id = HWACCEL_NONE,
      hwaccel_pix_fmt = AV_PIX_FMT_NONE\<rparr>"

record AVCodecContext =
  codec_id :: int
  ctx_width :: int
  ctx_height :: int
  coded_width :: int
  coded_height :: int
  thread_count :: int
  opaque :: "InputStream option"
  get_buffer2 :: fn
  get_format :: fn
  thread_safe_callbacks :: int
  flags2 :: "32 word"

definition CODEC_FLAG2_FAST :: "32 word" where
  "CODEC_FLAG2_FAST = 1"

definition av_frame_alloc :: AVFrame where
  "av_frame_alloc = \<lparr>format = AV_PIX_FMT_NONE, sample_aspect_ratio = \<lparr>num = 0, den = 1\<rparr>\<rparr>"

subsection \<open>The external collaborators\<close>

text \<open>
  What the file system, the demuxing and codec library and the DXVA2 backend answer.
  They are black boxes to the decoder, so each is an argument: a function of what the
  decoder passes, giving the return code and what the call leaves behind.
  \<open>time_in_stream_units v tb\<close> stands for the double-precision expression
  \<open>int64_t((v / av_q2d(tb)) / 1000000LL)\<close>. \<open>dxva2_init\<close> fills in the negotiation
  record that \<open>opaque\<close> points to.
\<close>

record Library =
  is_regular_file :: "string \<Rightarrow> bool"
  fsopen :: "string \<Rightarrow> FILE option"
  av_malloc :: "nat \<Rightarrow> byte list"
  av_probe_input_format :: "byte list \<Rightarrow> AVInputFormat option"
  av_find_input_format :: "string \<Rightarrow> AVInputFormat option"
  avformat_alloc_context :: AVFormatContext
  avformat_open_input ::
    "AVFormatContext \<Rightarrow> string option \<Rightarrow> AVInputFormat option \<Rightarrow> int \<times> AVFormatContext"
  avformat_find_stream_info :: "AVFormatContext \<Rightarrow> int \<times> AVFormatContext"
  time_in_stream_units :: "int64_t \<Rightarrow> AVRational \<Rightarrow> int64_t"
  avcodec_alloc_context3 :: "AVCodecContext option"
  avcodec_parameters_to_context ::
    "AVCodecContext \<Rightarrow> AVCodecParameters \<Rightarrow> int \<times> AVCodecContext"
  avcodec_find_decoder :: "int \<Rightarrow> AVCodec option"
  dxva2_init :: "AVCodecContext \<Rightarrow> int \<times> InputStream"
  avcodec_open2 :: "AVCodecContext \<Rightarrow> AVCodec \<Rightarrow> int \<times> AVCodecContext"

subsection \<open>Decoder state\<close>

type_synonym thread = nat

text \<open>
  The members of \<open>FFmpegDecoder\<close> that the modelled calls read and write. A
  \<open>std::unique_ptr\<close> or a raw pointer is \<open>Some\<close> object when it is not null;
  \<open>m_decoderListener\<close> holds when a listener is registered. The atomics are plain
  fields: each modelled call runs as one step.
\<close>

record FFmpegDecoder =
  m_decoderListener :: bool
  m_bIsFile :: bool
  m_bValidHardWare :: bool
  m_ioCtx :: "IOContext option"
  m_formatContext :: "AVFormatContext option"
  m_videoStreamNumber :: int
  m_videoStream :: "AVStream option"
  m_videoCodec :: "AVCodec option"
  m_videoCodecContext :: "AVCodecContext option"
  m_videoFrame :: "AVFrame option"
  m_startTime :: int64_t
  m_currentTime :: int64_t
  m_duration :: int64_t
  m_mainParseThread :: "thread option"
  m_mainDisplayThread :: "thread option"
  m_seekDuration :: int64_t
  m_videoResetDuration :: int64_t
  m_videoResetting :: bool
  m_generation :: uint
  m_frameDisplayingRequested :: bool
  m_videoFramesQueue :: VideoFramesQueue


text \<open>Calls on collaborators, in the order the code makes them.\<close>

datatype call =
    PacketsQueue_notify
  | FramesCV_notify_all
  | Av_frame_unref AVFrame
  | FramesQueue_popFront

subsection \<open>\<open>seekDuration\<close> and \<open>videoReset\<close>\<close>

text \<open>\<open>std::atomic::exchange\<close>: store the new value, return the old one.\<close>

definition exchange :: "int64_t \<Rightarrow> int64_t \<Rightarrow> int64_t \<times> int64_t" where
  "exchange slot v = (slot, v)"

text \<open>
  \<open>seekDuration\<close> (its argument \<open>duration\<close> is \<open>target\<close> here) returns its
  result, the calls it made and the new state. The
  \<open>&&\<close> short-circuits: without a parse thread the exchange is not evaluated.
\<close>

definition seekDuration :: "int64_t \<Rightarrow> FFmpegDecoder \<Rightarrow> bool \<times> call list \<times> FFmpegDecoder" where
  "seekDuration target st =
     (if \<not> m_bIsFile st then (False, [], st)
      else if m_mainParseThread st \<noteq> None then
        (let (old, new) = exchange (m_seekDuration st) target;
             st' = st\<lparr>m_seekDuration := new\<rparr>
         in if old = AV_NOPTS_VALUE then (True, [PacketsQueue_notify], st')
            else (True, [], st'))
      else (True, [], st))"

definition videoReset :: "FFmpegDecoder \<Rightarrow> call list \<times> FFmpegDecoder" where
  "videoReset st0 =
     (let st = st0\<lparr>m_videoResetting := True\<rparr>
      in if m_mainParseThread st \<noteq> None then
           (let (old, new) = exchange (m_videoResetDuration st) (m_currentTime st);
                st' = st\<lparr>m_videoResetDuration := new\<rparr>
            in if old = AV_NOPTS_VALUE then ([PacketsQueue_notify], st') else ([], st'))
         else ([], st))"

subsection \<open>\<open>finishedDisplayingFrame\<close>\<close>

definition finishedDisplayingFrame :: "uint \<Rightarrow> FFmpegDecoder \<Rightarrow> call list \<times> FFmpegDecoder" where
  "finishedDisplayingFrame generation st =
     (let (calls, q) =
        (if generation = m_generation st \<and> canPop (m_videoFramesQueue st) then
           (case front (m_videoFramesQueue st) of
              None \<Rightarrow> ([], m_videoFramesQueue st)
            | Some current_frame \<Rightarrow>
                (if format (m_image current_frame) = AV_PIX_FMT_DXVA2_VLD then
                   ([Av_frame_unref (m_image current_frame), FramesQueue_popFront],
                    popFront (m_videoFramesQueue st))
                 else ([FramesQueue_popFront], popFront (m_videoFramesQueue st))))
         else ([], m_videoFramesQueue st))
      in (calls @ [FramesCV_notify_all],
          st\<lparr>m_videoFramesQueue := q, m_frameDisplayingRequested := False\<rparr>))"

subsection \<open>\<open>getFrameRenderingData\<close>\<close>

record FrameRenderingData =
  width :: int
  height :: int
  data_pBGR :: ptr
  aspectNum :: int
  aspectDen :: int

text \<open>
  The result is the returned flag and the record behind \<open>data\<close>. The code reads
  \<open>front()\<close> without asking \<open>canPop\<close>; on an empty queue the model reports that.
\<close>

definition getFrameRenderingData ::
  "FrameRenderingData \<Rightarrow> FFmpegDecoder \<Rightarrow> fault + (bool \<times> FrameRenderingData)" where
  "getFrameRenderingData data st =
     (if \<not> m_frameDisplayingRequested st \<or> m_mainParseThread st = None \<or> m_videoResetting st
      then Inr (False, data)
      else case front (m_videoFramesQueue st) of
        None \<Rightarrow> Inl FrontOfEmptyQueue
      | Some current_frame \<Rightarrow>
          if pBGR current_frame = nullptr \<or> m_nImageWidth current_frame = 0
             \<or> m_nImageHeight current_frame = 0
          then Inr (False, data)
          else
            (let d1 = data\<lparr>width := m_nImageWidth current_frame,
                           height := m_nImageHeight current_frame,
                           data_pBGR := pBGR current_frame\<rparr>;
                 sar = sample_aspect_ratio (m_image current_frame)
             in if num sar \<noteq> 0 \<and> den sar \<noteq> 0
                then Inr (True, d1\<lparr>aspectNum := num sar, aspectDen := den sar\<rparr>)
                else Inr (True, d1\<lparr>aspectNum := 1, aspectDen := 1\<rparr>)))"

subsection \<open>\<open>resetVideoProcessing\<close>\<close>

text \<open>
  The \<open>USE_HWACCEL\<close> block of \<open>resetVideoProcessing\<close> (the macro is defined at
  the top of the file), from the assignment of \<open>coded_width\<close> to the end of the
  \<open>if\<close> on \<open>dxva2_init\<close>: the codec context and the decoder state after it.
  \<open>hwaccel_input\<close> is the context handed to \<open>dxva2_init\<close>. The record's
  back-pointer \<open>dec_ctx\<close> to the context is left out.
\<close>

definition hwaccel_input :: "AVCodec \<Rightarrow> AVCodecContext \<Rightarrow> AVCodecContext" where
  "hwaccel_input codec ctx0 =
     ctx0\<lparr>coded_width := ctx_width ctx0,
          coded_height := ctx_height ctx0,
          thread_count := 1,
          opaque := Some (InputStream_new\<lparr>hwaccel_id := HWACCEL_AUTO,
                                           hwaccel_device := ''dxva2'',
                                           dec := Some codec\<rparr>)\<rparr>"

definition resetVideoProcessing_hwaccel ::
  "Library \<Rightarrow> AVCodec \<Rightarrow> AVCodecContext \<Rightarrow> FFmpegDecoder
     \<Rightarrow> AVCodecContext \<times> FFmpegDecoder" where
  "resetVideoProcessing_hwaccel lib codec ctx0 st =
     (let ctx = hwaccel_input codec ctx0;
          (rc, ist) = dxva2_init lib ctx
      in if 0 \<le> rc then
           (ctx\<lparr>opaque := Some ist,
                get_buffer2 := hwaccel_get_buffer ist,
                get_format := fn_GetHwFormat,
                thread_safe_callbacks := 1\<rparr>,
            st\<lparr>m_bValidHardWare := True\<rparr>)
         else
           (ctx\<lparr>opaque := None,
                thread_count := 2,
                flags2 := flags2 ctx OR CODEC_FLAG2_FAST\<rparr>,
            st\<lparr>m_bValidHardWare := False\<rparr>))"

text \<open>
  \<open>resetVideoProcessing\<close> returns its result and the new state. The guard on
  \<open>m_videoCodecContext\<close> frees the context and nulls the member on every
  \<open>return false\<close>. The \<open>assert\<close>s are compiled out (\<open>NDEBUG\<close>).
\<close>

definition resetVideoProcessing ::
  "Library \<Rightarrow> FFmpegDecoder \<Rightarrow> fault + (bool \<times> FFmpegDecoder)" where
  "resetVideoProcessing lib st0 =
     (let st = st0\<lparr>m_videoCodecContext := None\<rparr>
      in if 0 \<le> m_videoStreamNumber st then
           (case avcodec_alloc_context3 lib of
              None \<Rightarrow> Inr (False, st)
            | Some ctx0 \<Rightarrow>
                (case m_videoStream st of
                   None \<Rightarrow> Inl NullDereference
                 | Some vs \<Rightarrow>
                     (let (rc, ctx1) = avcodec_parameters_to_context lib ctx0 (codecpar vs)
                      in if rc < 0 then Inr (False, st)
                         else
                           (case avcodec_find_decoder lib (codec_id ctx1) of
                              None \<Rightarrow> Inr (False, st\<lparr>m_videoCodec := None\<rparr>)
                            | Some codec \<Rightarrow>
                                (let (ctx2, st1) =
                                       resetVideoProcessing_hwaccel lib codec ctx1
                                         (st\<lparr>m_videoCodec := Some codec\<rparr>);
                                     (rc2, ctx3) = avcodec_open2 lib ctx2 codec
                                 in if rc2 < 0 then Inr (False, st1)
                                    else if ctx_width ctx3 \<le> 0 \<or> ctx_height ctx3 \<le> 0
                                    then Inr (False, st1)
                                    else Inr (True, st1\<lparr>m_videoCodecContext := Some ctx3\<rparr>))))))
         else Inr (True, st))"

subsection \<open>\<open>openDecoder\<close>\<close>

datatype event =
    fileLoaded
  | changedFramePosition int64_t int64_t int64_t
  | fileReleased
  | decoderClosed
  | playingFinished

datatype outcome = Returned bool | Fault fault

text \<open>
  The loop \<open>for (unsigned i = nb_streams; i--;)\<close>: from the last stream down to the
  first, every video stream overwrites \<open>m_videoStream\<close> and \<open>m_videoStreamNumber\<close>.
\<close>

fun findVideoStream :: "nat \<Rightarrow> AVStream list \<Rightarrow> FFmpegDecoder \<Rightarrow> FFmpegDecoder" where
  "findVideoStream 0 ss st = st"
| "findVideoStream (Suc i) ss st =
     findVideoStream i ss
       (case codec_type (ss ! i) of
          AVMEDIA_TYPE_VIDEO \<Rightarrow> st\<lparr>m_videoStream := Some (ss ! i), m_videoStreamNumber := int i\<rparr>
        | AVMEDIA_TYPE_AUDIO \<Rightarrow> st
        | AVMEDIA_TYPE_OTHER \<Rightarrow> st)"

text \<open>
  The choice of input: a camera, the desktop or the URL (empty for a file, which is read
  through the adapter). \<open>None\<close> is the \<open>return false\<close> taken when the capture
  format is not found; otherwise the result of \<open>avformat_open_input\<close>.
\<close>

definition open_input ::
  "Library \<Rightarrow> string \<Rightarrow> bool \<Rightarrow> bool \<Rightarrow> AVFormatContext \<Rightarrow> (int \<times> AVFormatContext) option" where
  "open_input lib url bCamera bDesktop ctx =
     (if bCamera \<and> \<not> bDesktop then
        (case av_find_input_format lib ''vfwcap'' of
           Some ifmt \<Rightarrow> Some (avformat_open_input lib ctx None (Some ifmt))
         | None \<Rightarrow> None)
      else if \<not> bCamera \<and> bDesktop then
        (case av_find_input_format lib ''gdigrab'' of
           Some ifmt \<Rightarrow> Some (avformat_open_input lib ctx (Some ''desktop'') (Some ifmt))
         | None \<Rightarrow> None)
      else Some (avformat_open_input lib ctx (Some url) None))"

text \<open>
  \<open>m_startTime\<close> and \<open>m_duration\<close>: the stream's value when positive, else the
  container's converted to stream units, else 0.
\<close>

definition stream_or_container_time ::
  "Library \<Rightarrow> int64_t \<Rightarrow> int64_t \<Rightarrow> AVRational \<Rightarrow> int64_t" where
  "stream_or_container_time lib stream_value container_value tb =
     (if 0 < sint stream_value then stream_value
      else if container_value = AV_NOPTS_VALUE then 0
      else time_in_stream_units lib container_value tb)"

text \<open>
  \<open>openDecoder\<close> from the guard on \<open>m_formatContext\<close> on. The result is the
  outcome, the listener events in order, and the new state. The guard closes the format
  context and nulls the member on every \<open>return false\<close>. When no video stream is
  found \<open>timeStream\<close> stays null and is dereferenced. The diagnostic log writes and
  the \<open>stimeout\<close> option dictionary are left out.
\<close>

definition openDecoder_opened ::
  "Library \<Rightarrow> string \<Rightarrow> bool \<Rightarrow> bool \<Rightarrow> IOContext option \<Rightarrow> AVFormatContext
     \<Rightarrow> FFmpegDecoder \<Rightarrow> outcome \<times> event list \<times> FFmpegDecoder" where
  "openDecoder_opened lib url bCamera bDesktop io ctx st =
     (case open_input lib url bCamera bDesktop ctx of
        None \<Rightarrow> (Returned False, [], st\<lparr>m_formatContext := None\<rparr>)
      | Some (error, ctx1) \<Rightarrow>
          if error \<noteq> 0 then (Returned False, [], st\<lparr>m_formatContext := None\<rparr>)
          else
            (let (rc, ctx2) = avformat_find_stream_info lib ctx1
             in if rc < 0 then (Returned False, [], st\<lparr>m_formatContext := None\<rparr>)
                else
                  (let st1 = findVideoStream (length (streams ctx2)) (streams ctx2)
                               (st\<lparr>m_formatContext := Some ctx2, m_videoStreamNumber := -1\<rparr>)
                   in case (if m_videoStreamNumber st1 = -1 then None else m_videoStream st1) of
                        None \<Rightarrow> (Fault NullDereference, [], st1)
                      | Some timeStream \<Rightarrow>
                          (let st2 = st1\<lparr>m_startTime :=
                                           stream_or_container_time lib
                                             (stream_start_time timeStream) (start_time ctx2)
                                             (time_base timeStream),
                                         m_duration :=
                                           stream_or_container_time lib
                                             (stream_duration timeStream) (duration ctx2)
                                             (time_base timeStream)\<rparr>
                           in case resetVideoProcessing lib st2 of
                                Inl f \<Rightarrow> (Fault f, [], st2)
                              | Inr (ok, st3) \<Rightarrow>
                                  if \<not> ok then (Returned False, [], st3\<lparr>m_formatContext := None\<rparr>)
                                  else
                                    (let st4 = st3\<lparr>m_videoFrame := Some av_frame_alloc,
                                                   m_ioCtx := io\<rparr>
                                     in (Returned True,
                                         (if m_decoderListener st4 then
                                            [fileLoaded,
                                             changedFramePosition (m_startTime st4) (m_startTime st4)
                                               (m_duration st4 + m_startTime st4)]
                                          else []),
                                         st4))))))"

definition openDecoder ::
  "Library \<Rightarrow> string \<Rightarrow> string \<Rightarrow> bool \<Rightarrow> bool \<Rightarrow> bool \<Rightarrow> FFmpegDecoder
     \<Rightarrow> outcome \<times> event list \<times> FFmpegDecoder" where
  "openDecoder lib file url isFile bCamera bDesktop st0 =
     (let st = st0\<lparr>m_bIsFile := isFile\<rparr>
      in if isFile then
           (if \<not> is_regular_file lib file then (Returned False, [], st)
            else
              (let io = IOContext_new (av_malloc lib (1024 * 64)) (fsopen lib file)
               in if \<not> valid io then (Returned False, [], st)
                  else
                    (case initAVFormatContext (av_probe_input_format lib) io
                            (avformat_alloc_context lib) of
                       Inl f \<Rightarrow> (Fault f, [], st)
                     | Inr (ctx, io') \<Rightarrow>
                         openDecoder_opened lib url bCamera bDesktop (Some io') ctx st)))
         else openDecoder_opened lib url bCamera bDesktop None (avformat_alloc_context lib) st)"

definition openFile :: "Library \<Rightarrow> string \<Rightarrow> FFmpegDecoder \<Rightarrow> outcome \<times> event list \<times> FFmpegDecoder" where
  "openFile lib filename st = openDecoder lib filename [] True False False st"

definition openUrl :: "Library \<Rightarrow> string \<Rightarrow> FFmpegDecoder \<Rightarrow> outcome \<times> event list \<times> FFmpegDecoder" where
  "openUrl lib url st = openDecoder lib [] url False False False st"

definition openCamera :: "Library \<Rightarrow> FFmpegDecoder \<Rightarrow> outcome \<times> event list \<times> FFmpegDecoder" where
  "openCamera lib st = openDecoder lib [] [] False True False st"

definition openDesktop :: "Library \<Rightarrow> FFmpegDecoder \<Rightarrow> outcome \<times> event list \<times> FFmpegDecoder" where
  "openDesktop lib st = openDecoder lib [] [] False False True st"

subsection \<open>The decoder after construction\<close>

text \<open>
  The constructor's initialisers followed by \<open>resetVariables\<close>. The constructor
  leaves \<open>m_videoStreamNumber\<close> unset; it is -1 here, the value \<open>openDecoder\<close>
  starts its search from.
\<close>

definition FFmpegDecoder_new :: FFmpegDecoder where
  "FFmpegDecoder_new =
     \<lparr>m_decoderListener = False,
      m_bIsFile = False,
      m_bValidHardWare = False,
      m_ioCtx = None,
      m_formatContext = None,
      m_videoStreamNumber = -1,
      m_videoStream = None,
      m_videoCodec = None,
      m_videoCodecContext = None,
      m_videoFrame = None,
      m_startTime = 0,
      m_currentTime = 0,
      m_duration = 0,
      m_mainParseThread = None,
      m_mainDisplayThread = None,
      m_seekDuration = AV_NOPTS_VALUE,
      m_videoResetDuration = AV_NOPTS_VALUE,
      m_videoResetting = False,
      m_generation = 0,
      m_frameDisplayingRequested = False,
      m_videoFramesQueue = []\<rparr>"

subsection \<open>Example inputs\<close>

text \<open>A decoded frame still in DXVA2 surface format, and an untouched output record.\<close>

definition dxva2_frame :: VideoFrame where
  "dxva2_frame =
     \<lparr>m_image = \<lparr>format = AV_PIX_FMT_DXVA2_VLD, sample_aspect_ratio = \<lparr>num = 0, den = 1\<rparr>\<rparr>,
      pBGR = 4096, m_nImageWidth = 640, m_nImageHeight = 480\<rparr>"

definition blank_data :: FrameRenderingData where
  "blank_data = \<lparr>width = 0, height = 0, data_pBGR = nullptr, aspectNum = 0, aspectDen = 0\<rparr>"

text \<open>
  A codec context and a format context as freshly allocated, a short file positioned at
  offset 3, and collaborators that answer for one regular file \<open>movie.mp4\<close> holding
  the streams \<open>ss\<close>, with \<open>dxva2_init\<close> returning \<open>dxva2_rc\<close>.
\<close>

definition blank_codec_context :: AVCodecContext where
  "blank_codec_context =
     \<lparr>codec_id = 0, ctx_width = 0, ctx_height = 0, coded_width = 0, coded_height = 0,
      thread_count = 1, opaque = None, get_buffer2 = fn_default, get_format = fn_default,
      thread_safe_callbacks = 0, flags2 = 0\<rparr>"

definition blank_format_context :: AVFormatContext where
  "blank_format_context =
     \<lparr>pb = None, flags = 0, iformat = None, streams = [],
      start_time = AV_NOPTS_VALUE, duration = AV_NOPTS_VALUE\<rparr>"

definition example_library :: "int \<Rightarrow> AVStream list \<Rightarrow> Library" where
  "example_library dxva2_rc ss =
     \<lparr>is_regular_file = (\<lambda>path. path = ''movie.mp4''),
      fsopen = (\<lambda>path. if path = ''movie.mp4''
                         then Some \<lparr>content = [0, 0, 0, 24, 102, 116, 121, 112], fpos = 0\<rparr>
                         else None),
      av_malloc = (\<lambda>n. replicate n 0),
      av_probe_input_format = (\<lambda>bytes. Some (InputFormat ''mov'')),
      av_find_input_format = (\<lambda>name. Some (InputFormat name)),
      avformat_alloc_context = blank_format_context,
      avformat_open_input = (\<lambda>ctx url fmt. (0, ctx\<lparr>streams := ss, start_time := 0\<rparr>)),
      avformat_find_stream_info = (\<lambda>ctx. (0, ctx)),
      time_in_stream_units =
        (\<lambda>v tb. word_of_int (sint v * den tb div (num tb * 1000000))),
      avcodec_alloc_context3 = Some blank_codec_context,
      avcodec_parameters_to_context =
        (\<lambda>ctx par. (0, ctx\<lparr>codec_id := par_codec_id par, ctx_width := par_width par,
                               ctx_height := par_height par\<rparr>)),
      avcodec_find_decoder = (\<lambda>cid. Some (Codec cid)),
      dxva2_init =
        (\<lambda>ctx. (dxva2_rc,
                 (case opaque ctx of Some ist \<Rightarrow> ist | None \<Rightarrow> InputStream_new)
                   \<lparr>hwaccel_get_buffer := fn_hwaccel 1\<rparr>)),
      avcodec_open2 = (\<lambda>ctx codec. (0, ctx))\<rparr>"

definition example_file :: FILE where
  "example_file = \<lparr>content = [0, 0, 0, 24, 102, 116, 121, 112], fpos = 3\<rparr>"

text \<open>An empty file, and a video and an audio stream of ten seconds each.\<close>

definition empty_file :: FILE where
  "empty_file = \<lparr>content = [], fpos = 0\<rparr>"

definition video_stream :: AVStream where
  "video_stream =
     \<lparr>codec_type = AVMEDIA_TYPE_VIDEO, stream_start_time = 0, stream_duration = 900000,
      time_base = \<lparr>num = 1, den = 90000\<rparr>,
      codecpar = \<lparr>par_codec_id = 27, par_width = 640, par_height = 480\<rparr>\<rparr>"

definition audio_stream :: AVStream where
  "audio_stream =
     \<lparr>codec_type = AVMEDIA_TYPE_AUDIO, stream_start_time = 0, stream_duration = 441000,
      time_base = \<lparr>num = 1, den = 44100\<rparr>,
      codecpar = \<lparr>par_codec_id = 86018, par_width = 0, par_height = 0\<rparr>\<rparr>"

text \<open>
  What \<open>openDecoder\<close> tells the listener: after a successful open with a listener
  registered, \<open>fileLoaded\<close> and then one \<open>changedFramePosition\<close> from the start
  time to the start time plus the duration, positioned at the start; otherwise nothing.
\<close>

definition open_events :: "outcome \<times> event list \<times> FFmpegDecoder \<Rightarrow> bool \<Rightarrow> bool" where
  "open_events r listener =
     (case r of (out, evs, st') \<Rightarrow>
        evs = (if out = Returned True \<and> listener
               then [fileLoaded,
                     changedFramePosition (m_startTime st') (m_startTime st')
                       (m_startTime st' + m_duration st')]
               else []))"

section \<open>Seeking\<close>

text \<open>
  Claim C5. For every duration \<open>t\<close>, \<open>seekDuration t\<close> on a source that is not
  file-backed returns false, makes no call and leaves the state, the pending-seek slot
  included, as it was; on a file-backed source it returns true.
\<close>

theorem seekDuration_file_only:
  "(\<not> m_bIsFile st \<longrightarrow> seekDuration t st = (False, [], st)) \<and>
   (m_bIsFile st \<longrightarrow> fst (seekDuration t st) = True)"
  by (simp add: seekDuration_def exchange_def Let_def)

theorem seekDuration_file_only_witness:
  "seekDuration 5 FFmpegDecoder_new = (False, [], FFmpegDecoder_new) \<and>
   fst (seekDuration 5 (FFmpegDecoder_new\<lparr>m_bIsFile := True\<rparr>)) = True"
  using seekDuration_file_only [of FFmpegDecoder_new 5]
        seekDuration_file_only [of "FFmpegDecoder_new\<lparr>m_bIsFile := True\<rparr>" 5]
  by (simp add: FFmpegDecoder_new_def)

text \<open>
  Claim C10. For every duration \<open>t\<close>, \<open>seekDuration t\<close> on a file-backed source
  with no parse worker returns true, notifies no queue and leaves the state unchanged:
  \<open>t\<close> is not written into the pending-seek slot.
\<close>

theorem seekDuration_without_parse_thread:
  "m_bIsFile st \<Longrightarrow> m_mainParseThread st = None \<Longrightarrow> seekDuration t st = (True, [], st)"
  by (simp add: seekDuration_def)

theorem seekDuration_without_parse_thread_witness:
  "seekDuration 5 (FFmpegDecoder_new\<lparr>m_bIsFile := True\<rparr>)
     = (True, [], FFmpegDecoder_new\<lparr>m_bIsFile := True\<rparr>)
   \<and> m_seekDuration (FFmpegDecoder_new\<lparr>m_bIsFile := True\<rparr>) = AV_NOPTS_VALUE"
  using seekDuration_without_parse_thread [of "FFmpegDecoder_new\<lparr>m_bIsFile := True\<rparr>" 5]
  by (simp add: FFmpegDecoder_new_def)

text \<open>
  Claim C3, as stated: after \<open>seekDuration t1\<close> and then \<open>seekDuration t2\<close> on a
  file source the pending-seek slot holds \<open>t2\<close>. On a file source whose parse worker
  has not been started, seeking to 1 and then to 2 leaves the slot at its sentinel.
\<close>

theorem seekDuration_twice_counterexample:
  "m_bIsFile (FFmpegDecoder_new\<lparr>m_bIsFile := True\<rparr>) \<and>
   m_seekDuration (snd (snd (seekDuration 2 (snd (snd (seekDuration 1
       (FFmpegDecoder_new\<lparr>m_bIsFile := True\<rparr>))))))) \<noteq> 2"
  by (simp add: seekDuration_def FFmpegDecoder_new_def AV_NOPTS_VALUE_def)

text \<open>
  Claim C3, amended: on a file source whose parse worker exists, after
  \<open>seekDuration t1\<close> and then \<open>seekDuration t2\<close>, with nothing else touching the
  slot in between, the pending-seek slot holds exactly \<open>t2\<close>.
\<close>

theorem seekDuration_twice_latest:
  "m_bIsFile st \<Longrightarrow> m_mainParseThread st \<noteq> None \<Longrightarrow>
   m_seekDuration (snd (snd (seekDuration t2 (snd (snd (seekDuration t1 st)))))) = t2"
  by (simp add: seekDuration_def exchange_def Let_def)

theorem seekDuration_twice_latest_witness:
  "m_seekDuration (snd (snd (seekDuration 2 (snd (snd (seekDuration 1
       (FFmpegDecoder_new\<lparr>m_bIsFile := True, m_mainParseThread := Some 1\<rparr>))))))) = 2"
  using seekDuration_twice_latest
          [of "FFmpegDecoder_new\<lparr>m_bIsFile := True, m_mainParseThread := Some 1\<rparr>" 2 1]
  by (simp add: FFmpegDecoder_new_def)

section \<open>The frame queue and the presentation API\<close>

lemma front_Cons: "front (f # fs) = Some f"
  by (simp add: front_def)

lemma popFront_Cons: "popFront (f # fs) = fs"
  by (simp add: popFront_def)

text \<open>
  Claim C2. For every generation \<open>g\<close> passed to \<open>finishedDisplayingFrame\<close>: the
  front frame is popped exactly when \<open>g\<close> is the current generation and the queue is
  not empty; a popped frame whose image is in DXVA2 format is unreferenced first, then
  popped; when \<open>g\<close> is not the current generation the queue is left as it was.
\<close>

theorem finishedDisplayingFrame_pop:
  "(FramesQueue_popFront \<in> set (fst (finishedDisplayingFrame g st))
      \<longleftrightarrow> g = m_generation st \<and> m_videoFramesQueue st \<noteq> []) \<and>
   (g = m_generation st \<longrightarrow> m_videoFramesQueue st = f # fs \<longrightarrow>
      m_videoFramesQueue (snd (finishedDisplayingFrame g st)) = fs \<and>
      (format (m_image f) = AV_PIX_FMT_DXVA2_VLD \<longrightarrow>
         fst (finishedDisplayingFrame g st)
           = [Av_frame_unref (m_image f), FramesQueue_popFront, FramesCV_notify_all])) \<and>
   (g \<noteq> m_generation st \<longrightarrow>
      m_videoFramesQueue (snd (finishedDisplayingFrame g st)) = m_videoFramesQueue st)"
proof (cases "m_videoFramesQueue st")
  case Nil
  then show ?thesis
    by (simp add: finishedDisplayingFrame_def canPop_def)
next
  case (Cons a as)
  then show ?thesis
    by (simp add: finishedDisplayingFrame_def canPop_def front_Cons popFront_Cons)
qed

theorem finishedDisplayingFrame_pop_witness:
  "finishedDisplayingFrame 0 (FFmpegDecoder_new\<lparr>m_videoFramesQueue := [dxva2_frame]\<rparr>)
     = ([Av_frame_unref (m_image dxva2_frame), FramesQueue_popFront, FramesCV_notify_all],
        FFmpegDecoder_new) \<and>
   m_videoFramesQueue (snd (finishedDisplayingFrame 1
        (FFmpegDecoder_new\<lparr>m_videoFramesQueue := [dxva2_frame]\<rparr>))) = [dxva2_frame]"
  using finishedDisplayingFrame_pop
          [where g = 0 and st = "FFmpegDecoder_new\<lparr>m_videoFramesQueue := [dxva2_frame]\<rparr>"
             and f = dxva2_frame and fs = "[]"]
        finishedDisplayingFrame_pop
          [where g = 1 and st = "FFmpegDecoder_new\<lparr>m_videoFramesQueue := [dxva2_frame]\<rparr>"
             and f = dxva2_frame and fs = "[]"]
  by (simp add: FFmpegDecoder_new_def dxva2_frame_def finishedDisplayingFrame_def canPop_def
        front_def popFront_def)

text \<open>
  Claim C9. \<open>getFrameRenderingData\<close> returns false, leaving the output record alone,
  when no frame display was requested, when there is no parse thread, or when the pipeline
  is resetting; it also returns false when the front frame's \<open>pBGR\<close> is null or its
  width or height is 0; and when it returns true for a front frame whose sample aspect
  ratio has numerator or denominator 0, the aspect ratio delivered is 1:1.
\<close>

theorem getFrameRenderingData_failures:
  "(\<not> m_frameDisplayingRequested st \<or> m_mainParseThread st = None \<or> m_videoResetting st
      \<longrightarrow> getFrameRenderingData data st = Inr (False, data)) \<and>
   (m_videoFramesQueue st = f # fs \<longrightarrow>
      pBGR f = nullptr \<or> m_nImageWidth f = 0 \<or> m_nImageHeight f = 0 \<longrightarrow>
      getFrameRenderingData data st = Inr (False, data)) \<and>
   (m_videoFramesQueue st = f # fs \<longrightarrow>
      getFrameRenderingData data st = Inr (True, data') \<longrightarrow>
      num (sample_aspect_ratio (m_image f)) = 0 \<or> den (sample_aspect_ratio (m_image f)) = 0 \<longrightarrow>
      aspectNum data' = 1 \<and> aspectDen data' = 1)"
  by (auto simp: getFrameRenderingData_def front_Cons Let_def split: if_splits)

theorem getFrameRenderingData_failures_witness:
  "getFrameRenderingData blank_data FFmpegDecoder_new = Inr (False, blank_data) \<and>
   getFrameRenderingData blank_data
      (FFmpegDecoder_new\<lparr>m_frameDisplayingRequested := True, m_mainParseThread := Some 1,
                          m_videoFramesQueue := [dxva2_frame\<lparr>pBGR := nullptr\<rparr>]\<rparr>)
     = Inr (False, blank_data) \<and>
   getFrameRenderingData blank_data
      (FFmpegDecoder_new\<lparr>m_frameDisplayingRequested := True, m_mainParseThread := Some 1,
                          m_videoFramesQueue := [dxva2_frame]\<rparr>)
     = Inr (True, \<lparr>width = 640, height = 480, data_pBGR = 4096, aspectNum = 1, aspectDen = 1\<rparr>)"
  using getFrameRenderingData_failures [where st = FFmpegDecoder_new and data = blank_data]
        getFrameRenderingData_failures
          [where st = "FFmpegDecoder_new\<lparr>m_frameDisplayingRequested := True,
                          m_mainParseThread := Some 1,
                          m_videoFramesQueue := [dxva2_frame\<lparr>pBGR := nullptr\<rparr>]\<rparr>"
             and f = "dxva2_frame\<lparr>pBGR := nullptr\<rparr>" and fs = "[]" and data = blank_data]
        getFrameRenderingData_failures
          [where st = "FFmpegDecoder_new\<lparr>m_frameDisplayingRequested := True,
                          m_mainParseThread := Some 1,
                          m_videoFramesQueue := [dxva2_frame]\<rparr>"
             and f = dxva2_frame and fs = "[]" and data = blank_data
             and data' = "\<lparr>width = 640, height = 480, data_pBGR = 4096,
                           aspectNum = 1, aspectDen = 1\<rparr>"]
  by (simp add: FFmpegDecoder_new_def dxva2_frame_def blank_data_def getFrameRenderingData_def
        front_def nullptr_def)

section \<open>Hardware acceleration\<close>

text \<open>
  Claim C4. The hardware block of the codec-context setup has exactly two outcomes,
  decided by \<open>dxva2_init\<close>. When it succeeds (a result of 0 or more) the context's
  \<open>get_buffer2\<close> is the negotiation record's buffer callback, \<open>get_format\<close> is
  \<open>GetHwFormat\<close>, the record stays attached, \<open>m_bValidHardWare\<close> is true and the
  thread count is 1. When it fails the record is discarded (\<open>opaque\<close> is null), the
  thread count is 2, the fast flag is set and \<open>m_bValidHardWare\<close> is false.
\<close>

theorem hwaccel_two_outcomes:
  "resetVideoProcessing_hwaccel lib codec c st = (c', st') \<Longrightarrow>
   (if 0 \<le> fst (dxva2_init lib (hwaccel_input codec c))
    then get_buffer2 c' = hwaccel_get_buffer (snd (dxva2_init lib (hwaccel_input codec c))) \<and>
         get_format c' = fn_GetHwFormat \<and>
         opaque c' = Some (snd (dxva2_init lib (hwaccel_input codec c))) \<and>
         m_bValidHardWare st' \<and> thread_count c' = 1
    else opaque c' = None \<and> thread_count c' = 2 \<and>
         flags2 c' = flags2 c OR CODEC_FLAG2_FAST \<and> \<not> m_bValidHardWare st')"
  by (auto simp: resetVideoProcessing_hwaccel_def hwaccel_input_def Let_def
           split: if_splits prod.splits)

theorem hwaccel_two_outcomes_witness:
  "m_bValidHardWare (snd (resetVideoProcessing_hwaccel (example_library 0 []) (Codec 27)
      blank_codec_context FFmpegDecoder_new)) \<and>
   thread_count (fst (resetVideoProcessing_hwaccel (example_library 0 []) (Codec 27)
      blank_codec_context FFmpegDecoder_new)) = 1 \<and>
   get_format (fst (resetVideoProcessing_hwaccel (example_library 0 []) (Codec 27)
      blank_codec_context FFmpegDecoder_new)) = fn_GetHwFormat \<and>
   \<not> m_bValidHardWare (snd (resetVideoProcessing_hwaccel (example_library (-1) []) (Codec 27)
      blank_codec_context FFmpegDecoder_new)) \<and>
   thread_count (fst (resetVideoProcessing_hwaccel (example_library (-1) []) (Codec 27)
      blank_codec_context FFmpegDecoder_new)) = 2 \<and>
   opaque (fst (resetVideoProcessing_hwaccel (example_library (-1) []) (Codec 27)
      blank_codec_context FFmpegDecoder_new)) = None"
  using hwaccel_two_outcomes
          [where lib = "example_library 0 []" and codec = "Codec 27"
             and c = blank_codec_context and st = FFmpegDecoder_new,
           OF surjective_pairing]
        hwaccel_two_outcomes
          [where lib = "example_library (-1) []" and codec = "Codec 27"
             and c = blank_codec_context and st = FFmpegDecoder_new,
           OF surjective_pairing]
  by (simp add: example_library_def hwaccel_input_def)

section \<open>The I/O adapter\<close>

lemma sint_int64_of_int:
  "0 \<le> t \<Longrightarrow> t \<le> INT64_MAX \<Longrightarrow> sint (word_of_int t :: int64_t) = t"
  unfolding sint_sbintrunc'
  by (rule signed_take_bit_int_eq_self) (simp_all add: INT64_MAX_def)

lemma sint_int64_of_nat:
  "int n \<le> INT64_MAX \<Longrightarrow> sint (word_of_nat n :: int64_t) = int n"
  using sint_int64_of_int [of "int n"] by simp

lemma sint_c_int_of_nat:
  "n < 2 ^ 31 \<Longrightarrow> sint (int_of_size_t n) = int n"
proof -
  assume "n < 2 ^ 31"
  then have "int n < 2 ^ 31"
    by (simp add: nat_less_iff [symmetric])
  then have "signed_take_bit 31 (int n) = int n"
    by (intro signed_take_bit_int_eq_self) simp_all
  then show ?thesis
    unfolding int_of_size_t_def using sint_sbintrunc' [where 'a = 32, of "int n"] by simp
qed

lemma size_t_of_int_nonneg:
  "0 \<le> sint i \<Longrightarrow> size_t_of_int i = nat (sint i)"
proof -
  assume nn: "0 \<le> sint i"
  have lt: "sint i < 2 ^ 31"
    using sint_lt [of i] by simp
  have "uint (scast i :: 64 word) = uint (word_of_int (sint i) :: 64 word)"
    by (simp only: scast_eq)
  also have "\<dots> = sint i mod 2 ^ 64"
    by (subst uint_word_of_int) simp
  also have "\<dots> = sint i"
    using nn lt by (intro mod_pos_pos_trivial) simp_all
  finally have "uint (scast i :: 64 word) = sint i" .
  then show ?thesis
    unfolding size_t_of_int_def unat_eq_nat_uint by (rule arg_cong)
qed

lemma wf_FILE_fseeki64: "wf_FILE f \<Longrightarrow> wf_FILE (snd (fseeki64 f offset whence))"
  by (auto simp: wf_FILE_def fseeki64_def Let_def split: option.splits)

lemma wf_FILE_fread: "wf_FILE f \<Longrightarrow> wf_FILE (snd (fread f n))"
  by (auto simp: wf_FILE_def fread_def Let_def)

lemma fseeki64_target:
  "fseeki64 f offset whence =
     (case (if whence = SEEK_SET then Some 0
            else if whence = SEEK_CUR then Some (int (fpos f))
            else if whence = SEEK_END then Some (int (length (content f)))
            else None) of
        None \<Rightarrow> (-1, f)
      | Some b \<Rightarrow>
          if 0 \<le> b + sint offset \<and> b + sint offset \<le> INT64_MAX
          then (0, f\<lparr>fpos := nat (b + sint offset)\<rparr>) else (-1, f))"
  by (auto simp: fseeki64_def Let_def split: option.splits)

lemma IOSeekFunc_size:
  assumes "fh hctx = Some f" and "wf_FILE f"
  shows "IOSeekFunc hctx pos AVSEEK_SIZE = Inr (word_of_nat (length (content f)), hctx)"
proof -
  have e: "fseeki64 f 0 SEEK_END = (0, f\<lparr>fpos := length (content f)\<rparr>)"
    using assms(2)
    by (simp add: fseeki64_target wf_FILE_def SEEK_SET_def SEEK_CUR_def SEEK_END_def)
  have c: "sint (ftelli64 f) = int (fpos f)"
    using assms(2) by (simp add: ftelli64_def wf_FILE_def sint_int64_of_nat)
  have b: "fseeki64 (f\<lparr>fpos := length (content f)\<rparr>) (ftelli64 f) SEEK_SET = (0, f)"
    using assms(2) by (simp add: fseeki64_target c wf_FILE_def)
  show ?thesis
    using assms(1) by (simp add: IOSeekFunc_def e b) (simp add: ftelli64_def)
qed

lemma IOSeekFunc_ordinary:
  assumes "fh hctx = Some f"
    and "whence = SEEK_SET \<and> b = 0 \<or> whence = SEEK_CUR \<and> b = int (fpos f)
         \<or> whence = SEEK_END \<and> b = int (length (content f))"
  shows "IOSeekFunc hctx pos whence =
     (if 0 \<le> b + sint pos \<and> b + sint pos \<le> INT64_MAX
      then Inr (word_of_int (b + sint pos),
                hctx\<lparr>fh := Some (f\<lparr>fpos := nat (b + sint pos)\<rparr>)\<rparr>)
      else Inr (-1, hctx))"
proof -
  have w: "whence \<noteq> AVSEEK_SIZE"
    using assms(2) by (auto simp: AVSEEK_SIZE_def SEEK_SET_def SEEK_CUR_def SEEK_END_def)
  have s: "fseeki64 f pos whence =
      (if 0 \<le> b + sint pos \<and> b + sint pos \<le> INT64_MAX
       then (0, f\<lparr>fpos := nat (b + sint pos)\<rparr>) else (-1, f))"
    using assms(2)
    by (auto simp: fseeki64_target SEEK_SET_def SEEK_CUR_def SEEK_END_def)
  show ?thesis
    using assms(1) w by (simp add: IOSeekFunc_def s ftelli64_def)
qed

lemma IOSeekFunc_unknown_whence:
  assumes "fh hctx = Some f"
    and "whence \<notin> {SEEK_SET, SEEK_CUR, SEEK_END, AVSEEK_SIZE}"
  shows "IOSeekFunc hctx pos whence = Inr (-1, hctx)"
  using assms by (simp add: IOSeekFunc_def fseeki64_target)

lemma IOReadFunc_bytes:
  assumes "fh hctx = Some f"
    and "bytes = take (size_t_of_int buf_size) (drop (fpos f) (content f))"
  shows "IOReadFunc hctx buf buf_size =
     Inr (if bytes = [] then AVERROR_EOF else int_of_size_t (length bytes),
          store_bytes bytes buf,
          hctx\<lparr>fh := Some (f\<lparr>fpos := fpos f + length bytes\<rparr>)\<rparr>)"
proof -
  have fr: "fread f (size_t_of_int buf_size) = (bytes, f\<lparr>fpos := fpos f + length bytes\<rparr>)"
    unfolding assms(2) by (simp add: fread_def Let_def)
  show ?thesis
    by (simp add: IOReadFunc_def assms(1) fr)
qed

lemma read_length_bound:
  assumes "0 \<le> sint buf_size"
    and "bytes = take (size_t_of_int buf_size) (drop (fpos f) (content f))"
  shows "length bytes < 2 ^ 31"
proof -
  have "sint buf_size < 2 ^ 31"
    using sint_lt [of buf_size] by simp
  then have "nat (sint buf_size) < 2 ^ 31"
    using assms(1) by (simp add: nat_less_iff)
  moreover have "length bytes \<le> nat (sint buf_size)"
    unfolding assms(2) size_t_of_int_nonneg [OF assms(1)] by simp
  ultimately show ?thesis
    by (rule le_less_trans [rotated])
qed

lemma size_t_of_int_minus_1: "size_t_of_int (- 1) = 18446744073709551615"
  by (simp add: size_t_of_int_def unsigned_minus_1_eq_mask mask_eq_exp_minus_1)

lemma wf_example_file: "wf_FILE (example_file\<lparr>fpos := p\<rparr>) = (int p \<le> INT64_MAX)"
  by (simp add: wf_FILE_def example_file_def INT64_MAX_def)

text \<open>
  Claim C6. On an adapter with an open file (its size and position within
  \<open>int64_t\<close>, as every file's are), for every seek request and every read request:
  the seek callback with \<open>AVSEEK_SIZE\<close> returns the size of the file in bytes and
  leaves the adapter, the file position included, unchanged; a seek from the start, from
  the current position or from the end returns the new offset and moves there when that
  offset is not negative and fits \<open>int64_t\<close>, and returns -1 without moving
  otherwise, as does a seek with any other \<open>whence\<close>; the read callback returns
  \<open>AVERROR_EOF\<close> when no byte was read and otherwise the number of bytes read as an
  \<open>int\<close>, which is that number itself whenever it is below \<open>2^31\<close>, as it is
  for every buffer size that is not negative.
\<close>

theorem IOContext_callbacks:
  assumes "fh hctx = Some f" and "wf_FILE f"
  shows
    "IOSeekFunc hctx pos AVSEEK_SIZE = Inr (word_of_nat (length (content f)), hctx) \<and>
     sint (word_of_nat (length (content f)) :: int64_t) = int (length (content f)) \<and>
     (let t = sint pos
      in IOSeekFunc hctx pos SEEK_SET =
           (if 0 \<le> t \<and> t \<le> INT64_MAX
            then Inr (word_of_int t, hctx\<lparr>fh := Some (f\<lparr>fpos := nat t\<rparr>)\<rparr>)
            else Inr (-1, hctx)) \<and>
         (0 \<le> t \<and> t \<le> INT64_MAX \<longrightarrow> sint (word_of_int t :: int64_t) = t)) \<and>
     (let t = int (fpos f) + sint pos
      in IOSeekFunc hctx pos SEEK_CUR =
           (if 0 \<le> t \<and> t \<le> INT64_MAX
            then Inr (word_of_int t, hctx\<lparr>fh := Some (f\<lparr>fpos := nat t\<rparr>)\<rparr>)
            else Inr (-1, hctx)) \<and>
         (0 \<le> t \<and> t \<le> INT64_MAX \<longrightarrow> sint (word_of_int t :: int64_t) = t)) \<and>
     (let t = int (length (content f)) + sint pos
      in IOSeekFunc hctx pos SEEK_END =
           (if 0 \<le> t \<and> t \<le> INT64_MAX
            then Inr (word_of_int t, hctx\<lparr>fh := Some (f\<lparr>fpos := nat t\<rparr>)\<rparr>)
            else Inr (-1, hctx)) \<and>
         (0 \<le> t \<and> t \<le> INT64_MAX \<longrightarrow> sint (word_of_int t :: int64_t) = t)) \<and>
     (whence \<notin> {SEEK_SET, SEEK_CUR, SEEK_END, AVSEEK_SIZE} \<longrightarrow>
        IOSeekFunc hctx pos whence = Inr (-1, hctx)) \<and>
     (let bytes = take (size_t_of_int buf_size) (drop (fpos f) (content f))
      in IOReadFunc hctx buf buf_size =
           Inr (if bytes = [] then AVERROR_EOF else int_of_size_t (length bytes),
                store_bytes bytes buf,
                hctx\<lparr>fh := Some (f\<lparr>fpos := fpos f + length bytes\<rparr>)\<rparr>) \<and>
         (length bytes < 2 ^ 31 \<longrightarrow>
            sint (int_of_size_t (length bytes)) = int (length bytes)) \<and>
         (0 \<le> sint buf_size \<longrightarrow>
            size_t_of_int buf_size = nat (sint buf_size) \<and> length bytes < 2 ^ 31))"
proof -
  have size: "IOSeekFunc hctx pos AVSEEK_SIZE = Inr (word_of_nat (length (content f)), hctx)"
    using assms by (rule IOSeekFunc_size)
  have size_exact: "sint (word_of_nat (length (content f)) :: int64_t) = int (length (content f))"
    using assms(2) by (intro sint_int64_of_nat) (simp add: wf_FILE_def)
  have ordinary: "IOSeekFunc hctx pos whence' =
      (if 0 \<le> b + sint pos \<and> b + sint pos \<le> INT64_MAX
       then Inr (word_of_int (b + sint pos),
                 hctx\<lparr>fh := Some (f\<lparr>fpos := nat (b + sint pos)\<rparr>)\<rparr>)
       else Inr (-1, hctx)) \<and>
      (0 \<le> b + sint pos \<and> b + sint pos \<le> INT64_MAX \<longrightarrow>
         sint (word_of_int (b + sint pos) :: int64_t) = b + sint pos)"
    if "whence' = SEEK_SET \<and> b = 0 \<or> whence' = SEEK_CUR \<and> b = int (fpos f)
         \<or> whence' = SEEK_END \<and> b = int (length (content f))" for whence' b
    using IOSeekFunc_ordinary [OF assms(1) that] sint_int64_of_int by blast
  have s1: "let t = sint pos
      in IOSeekFunc hctx pos SEEK_SET =
           (if 0 \<le> t \<and> t \<le> INT64_MAX
            then Inr (word_of_int t, hctx\<lparr>fh := Some (f\<lparr>fpos := nat t\<rparr>)\<rparr>)
            else Inr (-1, hctx)) \<and>
         (0 \<le> t \<and> t \<le> INT64_MAX \<longrightarrow> sint (word_of_int t :: int64_t) = t)"
    using ordinary [of SEEK_SET 0] unfolding Let_def by simp
  have s2: "let t = int (fpos f) + sint pos
      in IOSeekFunc hctx pos SEEK_CUR =
           (if 0 \<le> t \<and> t \<le> INT64_MAX
            then Inr (word_of_int t, hctx\<lparr>fh := Some (f\<lparr>fpos := nat t\<rparr>)\<rparr>)
            else Inr (-1, hctx)) \<and>
         (0 \<le> t \<and> t \<le> INT64_MAX \<longrightarrow> sint (word_of_int t :: int64_t) = t)"
    unfolding Let_def by (rule ordinary) simp
  have s3: "let t = int (length (content f)) + sint pos
      in IOSeekFunc hctx pos SEEK_END =
           (if 0 \<le> t \<and> t \<le> INT64_MAX
            then Inr (word_of_int t, hctx\<lparr>fh := Some (f\<lparr>fpos := nat t\<rparr>)\<rparr>)
            else Inr (-1, hctx)) \<and>
         (0 \<le> t \<and> t \<le> INT64_MAX \<longrightarrow> sint (word_of_int t :: int64_t) = t)"
    unfolding Let_def by (rule ordinary) simp
  have s4: "whence \<notin> {SEEK_SET, SEEK_CUR, SEEK_END, AVSEEK_SIZE} \<longrightarrow>
        IOSeekFunc hctx pos whence = Inr (-1, hctx)"
    using IOSeekFunc_unknown_whence [OF assms(1)] by blast
  define bytes where "bytes = take (size_t_of_int buf_size) (drop (fpos f) (content f))"
  have r1: "IOReadFunc hctx buf buf_size =
           Inr (if bytes = [] then AVERROR_EOF else int_of_size_t (length bytes),
                store_bytes bytes buf,
                hctx\<lparr>fh := Some (f\<lparr>fpos := fpos f + length bytes\<rparr>)\<rparr>)"
    using assms(1) bytes_def by (rule IOReadFunc_bytes)
  have r2: "length bytes < 2 ^ 31 \<longrightarrow>
            sint (int_of_size_t (length bytes)) = int (length bytes)"
    using sint_c_int_of_nat by blast
  have r3: "0 \<le> sint buf_size \<longrightarrow>
            size_t_of_int buf_size = nat (sint buf_size) \<and> length bytes < 2 ^ 31"
    using size_t_of_int_nonneg [of buf_size] read_length_bound [OF _ bytes_def] by blast
  have rd: "let bytes = take (size_t_of_int buf_size) (drop (fpos f) (content f))
      in IOReadFunc hctx buf buf_size =
           Inr (if bytes = [] then AVERROR_EOF else int_of_size_t (length bytes),
                store_bytes bytes buf,
                hctx\<lparr>fh := Some (f\<lparr>fpos := fpos f + length bytes\<rparr>)\<rparr>) \<and>
         (length bytes < 2 ^ 31 \<longrightarrow>
            sint (int_of_size_t (length bytes)) = int (length bytes)) \<and>
         (0 \<le> sint buf_size \<longrightarrow>
            size_t_of_int buf_size = nat (sint buf_size) \<and> length bytes < 2 ^ 31)"
    unfolding Let_def bytes_def [symmetric] by (intro conjI r1 r2 r3)
  show ?thesis
    by (intro conjI size size_exact s1 s2 s3 s4 rd)
qed

theorem IOContext_callbacks_witness:
  "IOSeekFunc (IOContext_new [] (Some example_file)) 0 AVSEEK_SIZE
     = Inr (8, IOContext_new [] (Some example_file)) \<and>
   IOSeekFunc (IOContext_new [] (Some example_file)) (-2) SEEK_END
     = Inr (6, (IOContext_new [] (Some example_file))\<lparr>fh := Some (example_file\<lparr>fpos := 6\<rparr>)\<rparr>) \<and>
   IOSeekFunc (IOContext_new [] (Some example_file)) (-4) SEEK_CUR
     = Inr (-1, IOContext_new [] (Some example_file)) \<and>
   IOSeekFunc (IOContext_new [] (Some example_file)) 0x7FFFFFFFFFFFFFFF SEEK_CUR
     = Inr (-1, IOContext_new [] (Some example_file)) \<and>
   IOSeekFunc (IOContext_new [] (Some example_file)) 0 3
     = Inr (-1, IOContext_new [] (Some example_file)) \<and>
   IOReadFunc (IOContext_new [] (Some example_file)) [9, 9, 9, 9] 4
     = Inr (4, [24, 102, 116, 121],
            (IOContext_new [] (Some example_file))\<lparr>fh := Some (example_file\<lparr>fpos := 7\<rparr>)\<rparr>) \<and>
   IOReadFunc ((IOContext_new [] (Some example_file))\<lparr>fh := Some (example_file\<lparr>fpos := 8\<rparr>)\<rparr>)
       [9, 9, 9, 9] 4
     = Inr (AVERROR_EOF, [9, 9, 9, 9],
            (IOContext_new [] (Some example_file))\<lparr>fh := Some (example_file\<lparr>fpos := 8\<rparr>)\<rparr>) \<and>
   IOReadFunc (IOContext_new [] (Some example_file)) [9, 9, 9, 9, 9, 9, 9, 9] (-1)
     = Inr (5, [24, 102, 116, 121, 112, 9, 9, 9],
            (IOContext_new [] (Some example_file))\<lparr>fh := Some (example_file\<lparr>fpos := 8\<rparr>)\<rparr>)"
  using IOContext_callbacks
          [where hctx = "IOContext_new [] (Some example_file)" and f = example_file
             and pos = 0 and whence = 3 and buf_size = 4 and buf = "[9, 9, 9, 9]"]
        IOContext_callbacks
          [where hctx = "IOContext_new [] (Some example_file)" and f = example_file
             and pos = "-2" and whence = 3 and buf_size = 4 and buf = "[9, 9, 9, 9]"]
        IOContext_callbacks
          [where hctx = "IOContext_new [] (Some example_file)" and f = example_file
             and pos = "-4" and whence = 3 and buf_size = "-1"
             and buf = "[9, 9, 9, 9, 9, 9, 9, 9]"]
        IOContext_callbacks
          [where hctx = "IOContext_new [] (Some example_file)" and f = example_file
             and pos = "0x7FFFFFFFFFFFFFFF" and whence = 3 and buf_size = 4
             and buf = "[9, 9, 9, 9]"]
        IOContext_callbacks
          [where hctx = "(IOContext_new [] (Some example_file))\<lparr>fh := Some (example_file\<lparr>fpos := 8\<rparr>)\<rparr>"
             and f = "example_file\<lparr>fpos := 8\<rparr>"
             and pos = 0 and whence = 3 and buf_size = 4 and buf = "[9, 9, 9, 9]"]
        wf_example_file [of 3] wf_example_file [of 8]
  by (simp add: IOContext_new_def example_file_def store_bytes_def Let_def INT64_MAX_def
        size_t_of_int_minus_1 size_t_of_int_nonneg int_of_size_t_def
        SEEK_SET_def SEEK_CUR_def SEEK_END_def AVSEEK_SIZE_def)

text \<open>
  Claim C8, as stated: for every file the adapter opened, \<open>initAVFormatContext\<close> reads
  a buffer's worth, probes the container format from it and rewinds. For an empty file the
  adapter is valid and the probe would name a format, but the read delivers no byte and the
  function returns before probing: \<open>iformat\<close> stays unset.
\<close>

theorem initAVFormatContext_empty_counterexample:
  "valid (IOContext_new [] (Some empty_file)) \<and>
   av_probe_input_format (example_library 0 []) [] \<noteq> None \<and>
   initAVFormatContext (av_probe_input_format (example_library 0 []))
       (IOContext_new [] (Some empty_file)) blank_format_context
     = Inr (blank_format_context
              \<lparr>pb := Some (ioCtx (IOContext_new [] (Some empty_file))),
               flags := AVFMT_FLAG_CUSTOM_IO, iformat := None\<rparr>,
            IOContext_new [] (Some empty_file))"
  by (simp add: valid_def IOContext_new_def empty_file_def example_library_def
        initAVFormatContext_def blank_format_context_def fread_def store_bytes_def
        size_t_of_int_def Let_def)

text \<open>
  Claim C8, amended: for every file the adapter opened, \<open>initAVFormatContext\<close>
  attaches the adapter as custom I/O and reads up to one buffer (65536 bytes) from the
  file's position into the start of its buffer. When that read yields at least one byte
  it sets \<open>iformat\<close> to the probe's answer for the first 65535 bytes of the buffer and
  leaves the file position at 0. When the read yields no byte it returns without probing
  and without seeking: \<open>iformat\<close> and the file position stay as they were.
\<close>

theorem initAVFormatContext_probe:
  "let io = IOContext_new malloced (Some f);
       bytes = take 65536 (drop (fpos f) (content f));
       filled = store_bytes bytes malloced;
       attached = pCtx\<lparr>pb := Some (ioCtx io), flags := flags pCtx OR AVFMT_FLAG_CUSTOM_IO\<rparr>
   in length bytes \<le> 65536 \<and> take (length bytes) filled = bytes \<and>
      (bytes \<noteq> [] \<longleftrightarrow> fpos f < length (content f)) \<and>
      initAVFormatContext probe io pCtx =
        (if bytes = [] then Inr (attached, io)
         else Inr (attached\<lparr>iformat := probe (take 65535 filled)\<rparr>,
                   io\<lparr>buffer := filled, fh := Some (f\<lparr>fpos := 0\<rparr>)\<rparr>))"
proof -
  define bytes where "bytes = take 65536 (drop (fpos f) (content f))"
  have ne: "bytes \<noteq> [] \<longleftrightarrow> fpos f < length (content f)"
    by (auto simp: bytes_def)
  have len: "length bytes \<le> 65536"
    by (simp add: bytes_def)
  have pre: "take (length bytes) (store_bytes bytes malloced) = bytes"
    by (simp add: store_bytes_def)
  have sz: "size_t_of_int 65536 = 65536"
    by (simp add: size_t_of_int_def)
  have fr: "fread f 65536 = (bytes, f\<lparr>fpos := fpos f + length bytes\<rparr>)"
    by (simp add: fread_def Let_def bytes_def)
  have sk: "fseeki64 (f\<lparr>fpos := fpos f + length bytes\<rparr>) 0 SEEK_SET = (0, f\<lparr>fpos := 0\<rparr>)"
    by (simp add: fseeki64_def SEEK_SET_def INT64_MAX_def)
  have run: "initAVFormatContext probe (IOContext_new malloced (Some f)) pCtx =
        (if bytes = []
         then Inr (pCtx\<lparr>pb := Some (ioCtx (IOContext_new malloced (Some f))),
                        flags := flags pCtx OR AVFMT_FLAG_CUSTOM_IO\<rparr>,
                   IOContext_new malloced (Some f))
         else Inr (pCtx\<lparr>pb := Some (ioCtx (IOContext_new malloced (Some f))),
                        flags := flags pCtx OR AVFMT_FLAG_CUSTOM_IO,
                        iformat := probe (take 65535 (store_bytes bytes malloced))\<rparr>,
                   (IOContext_new malloced (Some f))
                     \<lparr>buffer := store_bytes bytes malloced, fh := Some (f\<lparr>fpos := 0\<rparr>)\<rparr>))"
    by (simp add: initAVFormatContext_def IOContext_new_def sz fr sk Let_def store_bytes_def)
  show ?thesis
    unfolding Let_def bytes_def [symmetric]
    by (intro conjI ne len pre run)
qed

theorem initAVFormatContext_probe_witness:
  "initAVFormatContext (av_probe_input_format (example_library 0 []))
       (IOContext_new [1, 2, 3, 4, 5, 6, 7, 8, 9, 10] (Some example_file)) blank_format_context
     = Inr (blank_format_context
              \<lparr>pb := Some \<lparr>io_buffer_size = 65536, write_flag = 0\<rparr>,
               flags := AVFMT_FLAG_CUSTOM_IO, iformat := Some (InputFormat ''mov'')\<rparr>,
            (IOContext_new [24, 102, 116, 121, 112, 6, 7, 8, 9, 10]
               (Some (example_file\<lparr>fpos := 0\<rparr>)))) \<and>
   initAVFormatContext (av_probe_input_format (example_library 0 []))
       (IOContext_new [1, 2, 3, 4, 5, 6, 7, 8, 9, 10] (Some (example_file\<lparr>fpos := 8\<rparr>)))
       blank_format_context
     = Inr (blank_format_context
              \<lparr>pb := Some \<lparr>io_buffer_size = 65536, write_flag = 0\<rparr>,
               flags := AVFMT_FLAG_CUSTOM_IO, iformat := None\<rparr>,
            (IOContext_new [1, 2, 3, 4, 5, 6, 7, 8, 9, 10]
               (Some (example_file\<lparr>fpos := 8\<rparr>))))"
  using initAVFormatContext_probe
          [where f = example_file and malloced = "[1, 2, 3, 4, 5, 6, 7, 8, 9, 10]"
             and probe = "av_probe_input_format (example_library 0 [])"
             and pCtx = blank_format_context]
        initAVFormatContext_probe
          [where f = "example_file\<lparr>fpos := 8\<rparr>"
             and malloced = "[1, 2, 3, 4, 5, 6, 7, 8, 9, 10]"
             and probe = "av_probe_input_format (example_library 0 [])"
             and pCtx = blank_format_context]
  by (simp add: example_file_def IOContext_new_def example_library_def blank_format_context_def
        store_bytes_def Let_def)

section \<open>Opening a source\<close>

lemma findVideoStream_listener:
  "m_decoderListener (findVideoStream n ss st) = m_decoderListener st"
  by (induction n arbitrary: st) (simp_all split: AVMediaType.splits)

lemma resetVideoProcessing_hwaccel_keeps:
  "resetVideoProcessing_hwaccel lib codec c st = (c', st') \<Longrightarrow>
   m_decoderListener st' = m_decoderListener st \<and> m_startTime st' = m_startTime st \<and>
   m_duration st' = m_duration st"
  by (auto simp: resetVideoProcessing_hwaccel_def Let_def split: prod.splits if_splits)

lemma resetVideoProcessing_keeps:
  "resetVideoProcessing lib st = Inr (ok, st') \<Longrightarrow>
   m_decoderListener st' = m_decoderListener st \<and> m_startTime st' = m_startTime st \<and>
   m_duration st' = m_duration st"
  by (auto simp: resetVideoProcessing_def Let_def
           split: prod.splits if_splits option.splits
           dest!: resetVideoProcessing_hwaccel_keeps)

lemma openDecoder_opened_events:
  "open_events (openDecoder_opened lib url bCamera bDesktop io ctx st) (m_decoderListener st)"
  by (auto simp: open_events_def openDecoder_opened_def Let_def findVideoStream_listener
                 add.commute
           split: prod.splits if_splits option.splits sum.splits
           dest!: resetVideoProcessing_keeps)

text \<open>
  Claim C7. Whatever the source, \<open>openDecoder\<close> delivers to the listener: when it
  returns true and a listener is registered, exactly \<open>fileLoaded\<close> followed by one
  \<open>changedFramePosition (start, start, start + duration)\<close> with the start time and
  duration it stored; in every other case no event.
\<close>

theorem openDecoder_events:
  "case openDecoder lib filename url isFile bCamera bDesktop st of
     (out, evs, st') \<Rightarrow>
       evs = (if out = Returned True \<and> m_decoderListener st
              then [fileLoaded,
                    changedFramePosition (m_startTime st') (m_startTime st')
                      (m_startTime st' + m_duration st')]
              else [])"
proof -
  have opened: "open_events (openDecoder_opened lib url bCamera bDesktop io ctx st1)
                  (m_decoderListener st)"
    if "m_decoderListener st1 = m_decoderListener st" for io ctx st1
    using openDecoder_opened_events [of lib url bCamera bDesktop io ctx st1] that by simp
  have "open_events (openDecoder lib filename url isFile bCamera bDesktop st)
          (m_decoderListener st)"
    unfolding openDecoder_def Let_def
    by (auto simp: opened split: sum.splits prod.splits) (simp_all add: open_events_def)
  then show ?thesis
    by (simp add: open_events_def)
qed

theorem openDecoder_events_witness:
  "fst (snd (openDecoder (example_library 0 [audio_stream, video_stream]) ''movie.mp4'' []
               True False False (FFmpegDecoder_new\<lparr>m_decoderListener := True\<rparr>)))
     = [fileLoaded, changedFramePosition 0 0 900000] \<and>
   fst (openDecoder (example_library 0 [audio_stream, video_stream]) ''missing.mp4'' []
               True False False (FFmpegDecoder_new\<lparr>m_decoderListener := True\<rparr>))
     = Returned False \<and>
   fst (snd (openDecoder (example_library 0 [audio_stream, video_stream]) ''missing.mp4'' []
               True False False (FFmpegDecoder_new\<lparr>m_decoderListener := True\<rparr>)))
     = []"
  using openDecoder_events
          [where lib = "example_library 0 [audio_stream, video_stream]"
             and filename = "''movie.mp4''" and url = "[]" and isFile = True
             and bCamera = False and bDesktop = False
             and st = "FFmpegDecoder_new\<lparr>m_decoderListener := True\<rparr>"]
        openDecoder_events
          [where lib = "example_library 0 [audio_stream, video_stream]"
             and filename = "''missing.mp4''" and url = "[]" and isFile = True
             and bCamera = False and bDesktop = False
             and st = "FFmpegDecoder_new\<lparr>m_decoderListener := True\<rparr>"]
  by (simp add: openDecoder_def openDecoder_opened_def open_input_def
        example_library_def FFmpegDecoder_new_def IOContext_new_def valid_def
        initAVFormatContext_def fread_def fseeki64_def SEEK_SET_def size_t_of_int_def
        store_bytes_def blank_format_context_def blank_codec_context_def
        video_stream_def audio_stream_def stream_or_container_time_def
        resetVideoProcessing_def resetVideoProcessing_hwaccel_def hwaccel_input_def
        InputStream_new_def AV_NOPTS_VALUE_def Let_def)

lemma findVideoStream_no_video:
  "n \<le> length ss \<Longrightarrow> \<forall>s \<in> set ss. codec_type s \<noteq> AVMEDIA_TYPE_VIDEO \<Longrightarrow>
   findVideoStream n ss st = st"
  by (induction n arbitrary: st) (auto split: AVMediaType.splits)

lemma openDecoder_opened_no_video:
  assumes "open_input lib url bCamera bDesktop ctx = Some (0, ctx1)"
    and "avformat_find_stream_info lib ctx1 = (rc, ctx2)" and "0 \<le> rc"
    and "\<forall>s \<in> set (streams ctx2). codec_type s \<noteq> AVMEDIA_TYPE_VIDEO"
  shows "openDecoder_opened lib url bCamera bDesktop io ctx st =
           (Fault NullDereference, [],
            st\<lparr>m_formatContext := Some ctx2, m_videoStreamNumber := -1\<rparr>)"
  using assms by (simp add: openDecoder_opened_def findVideoStream_no_video)

text \<open>
  Claim C1. Opening a regular file whose only stream is audio: the open and the stream
  information succeed, no video stream is found, and \<open>openDecoder\<close> dereferences the
  null \<open>timeStream\<close>. It does not return false.
\<close>

theorem openDecoder_audio_only_faults:
  "openFile (example_library 0 [audio_stream]) ''movie.mp4''
       (FFmpegDecoder_new\<lparr>m_decoderListener := True\<rparr>)
     = (Fault NullDereference, [],
        FFmpegDecoder_new
          \<lparr>m_decoderListener := True, m_bIsFile := True,
           m_formatContext := Some (blank_format_context
              \<lparr>pb := Some \<lparr>io_buffer_size = 65536, write_flag = 0\<rparr>,
               flags := AVFMT_FLAG_CUSTOM_IO, iformat := Some (InputFormat ''mov''),
               streams := [audio_stream], start_time := 0\<rparr>)\<rparr>)"
  by (simp add: openFile_def openDecoder_def openDecoder_opened_def open_input_def
        example_library_def FFmpegDecoder_new_def IOContext_new_def valid_def
        initAVFormatContext_def fread_def fseeki64_def SEEK_SET_def size_t_of_int_def
        store_bytes_def blank_format_context_def audio_stream_def Let_def)

end
